theory Spec2Isabelle
  imports Complex_Main
begin

section \<open>Data models\<close>

text \<open>
  The four pydantic models of \<^verbatim>\<open>main.py\<close>. Every model has a field \<^verbatim>\<open>id\<close>, which is
  also the name of HOL's identity function, so the fields carry the initial of their model:
  \<^verbatim>\<open>User.id\<close> is \<open>u_id\<close>, \<^verbatim>\<open>Message.likes\<close> is \<open>m_likes\<close>, and so on. Python's \<^verbatim>\<open>str\<close>
  is \<open>string\<close>, \<^verbatim>\<open>List[str]\<close> is \<open>string list\<close>.
\<close>

record User =
  u_id :: string
  u_username :: string
  u_email :: string
  u_org_ids :: "string list"

record Organization =
  o_id :: string
  o_name :: string
  o_description :: string

record Message =
  m_id :: string
  m_content :: string
  m_user_id :: string
  m_timestamp :: string
  m_likes :: "string list"
  m_dislikes :: "string list"

text \<open>
  The collections hold plain dictionaries (\<^verbatim>\<open>user.dict()\<close>, \<^verbatim>\<open>group.dict()\<close>). A user or an
  organization dictionary has exactly the keys of its model, so the model's record stands
  for it. A message dictionary can carry one more key, \<^verbatim>\<open>"color"\<close>, which \<^verbatim>\<open>get_messages\<close>
  assigns: \<open>m_color\<close> is \<open>None\<close> while the key is absent.
\<close>

record message_dict = Message +
  m_color :: "string option"

text \<open>
  \<^verbatim>\<open>Group.messages\<close> is a list of \<^verbatim>\<open>Message\<close> models in a request body and a list of message
  dictionaries in the collection; the record is polymorphic in that element type.
\<close>

record 'msg Group =
  g_id :: string
  g_name :: string
  g_description :: string
  g_org_id :: string
  g_members :: "string list"
  g_messages :: "'msg list"

type_synonym group_dict = "message_dict Group"

definition Message_dict :: "Message \<Rightarrow> message_dict" where
  "Message_dict m =
     \<lparr>m_id = m_id m, m_content = m_content m, m_user_id = m_user_id m,
      m_timestamp = m_timestamp m, m_likes = m_likes m, m_dislikes = m_dislikes m,
      m_color = None\<rparr>"

definition Group_dict :: "Message Group \<Rightarrow> group_dict" where
  "Group_dict g =
     \<lparr>g_id = g_id g, g_name = g_name g, g_description = g_description g,
      g_org_id = g_org_id g, g_members = g_members g,
      g_messages = map Message_dict (g_messages g)\<rparr>"

text \<open>\<^verbatim>\<open>HTTPException(status_code=..., detail=...)\<close>, the only exception the handlers raise.\<close>

datatype error = HTTPException (status_code: nat) (detail: string)

section \<open>Database functions\<close>

text \<open>
  The files live in the operating system, outside the program. The model of it holds what
  \<^verbatim>\<open>load_data\<close> and \<^verbatim>\<open>save_data\<close> can observe: the directories, the content of each file,
  and the paths whose opening for writing or for reading raises (permissions, a read-only
  volume). The type \<open>'c\<close> of a file's content is left open: it is the JSON text, or anything
  that stands for it.
\<close>

record 'c fs =
  fs_dirs :: "string set"
  fs_files :: "string \<rightharpoonup> 'c"
  fs_write_denied :: "string set"
  fs_read_denied :: "string set"

definition path_exists :: "'c fs \<Rightarrow> string \<Rightarrow> bool" where
  \<comment> \<open>\<^verbatim>\<open>os.path.exists\<close>\<close>
  "path_exists d path \<longleftrightarrow> path \<in> dom (fs_files d) \<or> path \<in> fs_dirs d"

definition open_read :: "'c fs \<Rightarrow> string \<Rightarrow> 'c option" where
  \<comment> \<open>\<^verbatim>\<open>open(path, "r")\<close> and reading the whole content; \<open>None\<close> when it raises\<close>
  "open_read d path = (if path \<in> fs_read_denied d then None else fs_files d path)"

definition open_write :: "'c fs \<Rightarrow> string \<Rightarrow> 'c \<Rightarrow> 'c fs option" where
  \<comment> \<open>\<^verbatim>\<open>open(path, "w")\<close> under the directory \<^verbatim>\<open>data\<close>, replacing the content; \<open>None\<close> when it raises\<close>
  "open_write d path content =
     (if ''data'' \<in> fs_dirs d \<and> path \<notin> fs_dirs d \<and> path \<notin> fs_write_denied d
      then Some (d\<lparr>fs_files := (fs_files d)(path \<mapsto> content)\<rparr>)
      else None)"

definition makedirs :: "'c fs \<Rightarrow> string \<Rightarrow> 'c fs option" where
  \<comment> \<open>\<^verbatim>\<open>os.makedirs(path, exist_ok=True)\<close>; \<open>None\<close> when it raises\<close>
  "makedirs d path =
     (if path \<in> fs_dirs d then Some d
      else if path \<in> dom (fs_files d) \<or> path \<in> fs_write_denied d then None
      else Some (d\<lparr>fs_dirs := insert path (fs_dirs d)\<rparr>))"

text \<open>
  \<^verbatim>\<open>json.dump\<close> and \<^verbatim>\<open>json.load\<close> belong to Python's library, not to this program: they are
  parameters of the two functions below. \<open>json_dump\<close> gives the content written for a value
  (the values of this program are dictionaries of strings and lists, which the encoder
  accepts), \<open>json_load\<close> gives the value read from a content, \<open>None\<close> when the decoder
  raises.
\<close>

definition save_data :: "('d \<Rightarrow> 'c) \<Rightarrow> string \<Rightarrow> 'd \<Rightarrow> 'c fs \<Rightarrow> 'c fs" where
  "save_data json_dump filename data d =
     (case open_write d (''data/'' @ filename) (json_dump data) of
        Some d' \<Rightarrow> d'
      | None \<Rightarrow> d)"

definition load_data ::
  "('c \<Rightarrow> 'd option) \<Rightarrow> ('d \<Rightarrow> 'c) \<Rightarrow> 'd \<Rightarrow> string \<Rightarrow> 'd option \<Rightarrow> 'c fs \<Rightarrow> 'd \<times> 'c fs"
where
  \<comment> \<open>\<open>empty_dict\<close> is the literal \<^verbatim>\<open>{}\<close> that replaces a default of \<^verbatim>\<open>None\<close>\<close>
  "load_data json_load json_dump empty_dict filename default_arg d =
     (let default_data = (case default_arg of None \<Rightarrow> empty_dict | Some dd \<Rightarrow> dd) in
      if path_exists d (''data/'' @ filename) then
        (case open_read d (''data/'' @ filename) of
           None \<Rightarrow> (default_data, d)
         | Some content \<Rightarrow>
             (case json_load content of
                None \<Rightarrow> (default_data, d)
              | Some loaded \<Rightarrow> (loaded, d)))
      else
        (case makedirs d ''data'' of
           None \<Rightarrow> (default_data, d)
         | Some d' \<Rightarrow> (default_data, save_data json_dump filename default_data d')))"

section \<open>Data stores\<close>

text \<open>
  The three module-level dictionaries and the disk. \<^verbatim>\<open>save_data\<close> is called with each of the
  three dictionaries; \<open>collection\<close> is the type of what it is given.
\<close>

datatype collection =
    Users "string \<rightharpoonup> User"
  | Organizations "string \<rightharpoonup> Organization"
  | Groups "string \<rightharpoonup> group_dict"

record 'c state =
  users_db :: "string \<rightharpoonup> User"
  orgs_db :: "string \<rightharpoonup> Organization"
  groups_db :: "string \<rightharpoonup> group_dict"
  disk :: "'c fs"

definition empty_store :: "'c fs \<Rightarrow> 'c state" where
  "empty_store d = \<lparr>users_db = Map.empty, orgs_db = Map.empty, groups_db = Map.empty, disk = d\<rparr>"

section \<open>User and organization endpoints\<close>

definition create_user ::
  "(collection \<Rightarrow> 'c) \<Rightarrow> User \<Rightarrow> 'c state \<Rightarrow> (error + User) \<times> 'c state" where
  "create_user json_dump user st =
     (if u_id user \<in> dom (users_db st) then
        (Inl (HTTPException 400 ''User already exists''), st)
      else
        (let db = (users_db st)(u_id user \<mapsto> user) in
         (Inr user,
          st\<lparr>users_db := db, disk := save_data json_dump ''users.json'' (Users db) (disk st)\<rparr>)))"

definition get_user :: "string \<Rightarrow> 'c state \<Rightarrow> (error + User) \<times> 'c state" where
  "get_user user_id st =
     (case users_db st user_id of
        None \<Rightarrow> (Inl (HTTPException 404 ''User not found''), st)
      | Some u \<Rightarrow> (Inr u, st))"

definition create_organization ::
  "(collection \<Rightarrow> 'c) \<Rightarrow> Organization \<Rightarrow> 'c state \<Rightarrow> (error + Organization) \<times> 'c state" where
  "create_organization json_dump org st =
     (if o_id org \<in> dom (orgs_db st) then
        (Inl (HTTPException 400 ''Organization already exists''), st)
      else
        (let db = (orgs_db st)(o_id org \<mapsto> org) in
         (Inr org,
          st\<lparr>orgs_db := db,
             disk := save_data json_dump ''organizations.json'' (Organizations db) (disk st)\<rparr>)))"

section \<open>Group endpoints\<close>

definition create_group ::
  "(collection \<Rightarrow> 'c) \<Rightarrow> Message Group \<Rightarrow> 'c state \<Rightarrow> (error + Message Group) \<times> 'c state" where
  "create_group json_dump grp st =
     (if g_id grp \<in> dom (groups_db st) then
        (Inl (HTTPException 400 ''Group already exists''), st)
      else
        (let db = (groups_db st)(g_id grp \<mapsto> Group_dict grp) in
         (Inr grp,
          st\<lparr>groups_db := db, disk := save_data json_dump ''groups.json'' (Groups db) (disk st)\<rparr>)))"

definition add_member_to_group ::
  "(collection \<Rightarrow> 'c) \<Rightarrow> string \<Rightarrow> string \<Rightarrow> 'c state \<Rightarrow> (error + string) \<times> 'c state" where
  "add_member_to_group json_dump group_id user_id st =
     (case groups_db st group_id of
        None \<Rightarrow> (Inl (HTTPException 404 ''Group not found''), st)
      | Some grp \<Rightarrow>
          if user_id \<notin> dom (users_db st) then
            (Inl (HTTPException 404 ''User not found''), st)
          else if user_id \<notin> set (g_members grp) then
            (let db = (groups_db st)
                   (group_id \<mapsto> grp\<lparr>g_members := g_members grp @ [user_id]\<rparr>) in
             (Inr ''Member added successfully'',
              st\<lparr>groups_db := db,
                 disk := save_data json_dump ''groups.json'' (Groups db) (disk st)\<rparr>))
          else (Inr ''Member added successfully'', st))"

text \<open>
  \<^verbatim>\<open>create_message\<close> draws the message id from \<^verbatim>\<open>uuid4()\<close> and the timestamp from
  \<^verbatim>\<open>datetime.now()\<close>; the model receives both as the arguments \<open>uuid\<close> and \<open>now\<close>.
\<close>

definition create_message ::
  "(collection \<Rightarrow> 'c) \<Rightarrow> string \<Rightarrow> string \<Rightarrow> string \<Rightarrow> string \<Rightarrow> string \<Rightarrow> 'c state
     \<Rightarrow> (error + message_dict) \<times> 'c state" where
  "create_message json_dump uuid now group_id content user_id st =
     (case groups_db st group_id of
        None \<Rightarrow> (Inl (HTTPException 404 ''Group not found''), st)
      | Some grp \<Rightarrow>
          if user_id \<notin> dom (users_db st) then
            (Inl (HTTPException 404 ''User not found''), st)
          else
            (let message = Message_dict
                   \<lparr>m_id = uuid, m_content = content, m_user_id = user_id,
                    m_timestamp = now, m_likes = [], m_dislikes = []\<rparr>;
                 db = (groups_db st)
                   (group_id \<mapsto> grp\<lparr>g_messages := g_messages grp @ [message]\<rparr>) in
             (Inr message,
              st\<lparr>groups_db := db,
                 disk := save_data json_dump ''groups.json'' (Groups db) (disk st)\<rparr>)))"

text \<open>
  The loop of \<^verbatim>\<open>react_to_message\<close> stops at the first message whose id matches. The match is
  a reference into the stored list, so the later changes land in that position of the list:
  \<open>find_message\<close> returns the position.
\<close>

fun find_message :: "string \<Rightarrow> message_dict list \<Rightarrow> nat option" where
  "find_message message_id [] = None"
| "find_message message_id (msg # msgs) =
     (if m_id msg = message_id then Some 0
      else map_option Suc (find_message message_id msgs))"

definition remove_if_in :: "string \<Rightarrow> string list \<Rightarrow> string list" where
  \<comment> \<open>\<^verbatim>\<open>if user_id in xs: xs.remove(user_id)\<close>; \<^verbatim>\<open>list.remove\<close> deletes the first occurrence\<close>
  "remove_if_in user_id xs = (if user_id \<in> set xs then remove1 user_id xs else xs)"

definition react ::  "string \<Rightarrow> string \<Rightarrow> message_dict \<Rightarrow> message_dict" where
  \<comment> \<open>lines 145 to 155: what the handler does to the message it found\<close>
  "react user_id reaction message =
     (let likes = remove_if_in user_id (m_likes message);
          dislikes = remove_if_in user_id (m_dislikes message) in
      if reaction = ''like'' then
        message\<lparr>m_likes := likes @ [user_id], m_dislikes := dislikes\<rparr>
      else if reaction = ''dislike'' then
        message\<lparr>m_likes := likes, m_dislikes := dislikes @ [user_id]\<rparr>
      else
        message\<lparr>m_likes := likes, m_dislikes := dislikes\<rparr>)"

definition react_to_message ::
  "(collection \<Rightarrow> 'c) \<Rightarrow> string \<Rightarrow> string \<Rightarrow> string \<Rightarrow> string \<Rightarrow> 'c state
     \<Rightarrow> (error + message_dict) \<times> 'c state" where
  "react_to_message json_dump group_id message_id user_id reaction st =
     (case groups_db st group_id of
        None \<Rightarrow> (Inl (HTTPException 404 ''Group not found''), st)
      | Some grp \<Rightarrow>
          (case find_message message_id (g_messages grp) of
             None \<Rightarrow> (Inl (HTTPException 404 ''Message not found''), st)
           | Some i \<Rightarrow>
               (let message = react user_id reaction (g_messages grp ! i);
                    db = (groups_db st)
                      (group_id \<mapsto> grp\<lparr>g_messages := (g_messages grp)[i := message]\<rparr>) in
                (Inr message,
                 st\<lparr>groups_db := db,
                    disk := save_data json_dump ''groups.json'' (Groups db) (disk st)\<rparr>))))"

text \<open>
  \<^verbatim>\<open>get_messages\<close> computes \<^verbatim>\<open>len(likes) / total_reactions\<close> and compares it with 1 and 0.
  Python rounds that quotient to the nearest binary64 number; the model keeps the exact
  quotient, a rational. The two comparisons come out the same as long as the lists have
  fewer than \<open>2 ^ 53\<close> elements, which is more than the memory of any machine holds.
\<close>

definition reaction_color :: "message_dict \<Rightarrow> string" where
  "reaction_color message =
     (let total_reactions = length (m_likes message) + length (m_dislikes message) in
      if total_reactions > 0 then
        (let like_ratio = (of_nat (length (m_likes message)) :: rat) / of_nat total_reactions in
         if like_ratio = 1 then ''green''
         else if like_ratio = 0 then ''red''
         else ''yellow'')
      else ''gray'')"

text \<open>
  The loop assigns \<^verbatim>\<open>message["color"]\<close> on the dictionaries of \<^verbatim>\<open>groups_db\<close> themselves
  (\<^verbatim>\<open>messages\<close> is the stored list, not a copy), so the state returned holds them.
\<close>

definition get_messages :: "string \<Rightarrow> 'c state \<Rightarrow> (error + message_dict list) \<times> 'c state" where
  "get_messages group_id st =
     (case groups_db st group_id of
        None \<Rightarrow> (Inl (HTTPException 404 ''Group not found''), st)
      | Some grp \<Rightarrow>
          (let messages =
                 map (\<lambda>message. message\<lparr>m_color := Some (reaction_color message)\<rparr>)
                   (g_messages grp) in
           (Inr messages,
            st\<lparr>groups_db := (groups_db st)(group_id \<mapsto> grp\<lparr>g_messages := messages\<rparr>)\<rparr>)))"

section \<open>Requests\<close>

text \<open>
  The routes of the application: a request is handled by the one function its route names,
  and the requests are handled one after the other on the same dictionaries. A request
  that raises leaves a response with an error status; the dictionaries stay as the handler
  left them.
\<close>

datatype request =
    Create_user User
  | Get_user string
  | Create_organization Organization
  | Create_group "Message Group"
  | Add_member_to_group string string
  | Create_message string string string string string
  | React_to_message string string string string
  | Get_messages string

fun handle :: "(collection \<Rightarrow> 'c) \<Rightarrow> request \<Rightarrow> 'c state \<Rightarrow> 'c state" where
  "handle json_dump (Create_user user) st = snd (create_user json_dump user st)"
| "handle json_dump (Get_user user_id) st = snd (get_user user_id st)"
| "handle json_dump (Create_organization org) st = snd (create_organization json_dump org st)"
| "handle json_dump (Create_group grp) st = snd (create_group json_dump grp st)"
| "handle json_dump (Add_member_to_group group_id user_id) st =
     snd (add_member_to_group json_dump group_id user_id st)"
| "handle json_dump (Create_message uuid now group_id content user_id) st =
     snd (create_message json_dump uuid now group_id content user_id st)"
| "handle json_dump (React_to_message group_id message_id user_id reaction) st =
     snd (react_to_message json_dump group_id message_id user_id reaction st)"
| "handle json_dump (Get_messages group_id) st = snd (get_messages group_id st)"

fun serve :: "(collection \<Rightarrow> 'c) \<Rightarrow> request list \<Rightarrow> 'c state \<Rightarrow> 'c state" where
  "serve json_dump [] st = st"
| "serve json_dump (r # rs) st = serve json_dump rs (handle json_dump r st)"

text \<open>
  The responses to a run of \<^verbatim>\<open>react_to_message\<close> calls by one user on one message, one
  response for each reaction of the list, each call working on the state the one before
  left.
\<close>

fun react_calls ::
  "(collection \<Rightarrow> 'c) \<Rightarrow> string \<Rightarrow> string \<Rightarrow> string \<Rightarrow> string list \<Rightarrow> 'c state
     \<Rightarrow> (error + message_dict) list" where
  "react_calls json_dump group_id message_id user_id [] st = []"
| "react_calls json_dump group_id message_id user_id (reaction # reactions) st =
     fst (react_to_message json_dump group_id message_id user_id reaction st) #
     react_calls json_dump group_id message_id user_id reactions
       (snd (react_to_message json_dump group_id message_id user_id reaction st))"

section \<open>Sample data\<close>

text \<open>
  Concrete requests and a concrete disk for the examples. On the sample disk the directory
  \<^verbatim>\<open>data\<close> exists and nothing is refused; a file's content is the collection that its JSON
  text denotes, so that the encoder is the identity and the decoder is \<open>Some\<close>.
\<close>

definition disk0 :: "collection fs" where
  "disk0 = \<lparr>fs_dirs = {''data''}, fs_files = Map.empty, fs_write_denied = {},
            fs_read_denied = {}\<rparr>"

definition u1 :: User where
  "u1 = \<lparr>u_id = ''u1'', u_username = ''ann'', u_email = ''ann@example.org'', u_org_ids = []\<rparr>"

definition o1 :: Organization where
  "o1 = \<lparr>o_id = ''o1'', o_name = ''org'', o_description = ''an organization''\<rparr>"

definition g1 :: "Message Group" where
  "g1 = \<lparr>g_id = ''g1'', g_name = ''general'', g_description = ''a group'', g_org_id = ''o1'',
          g_members = [], g_messages = []\<rparr>"

definition st1 :: "collection state" where
  \<comment> \<open>one user, one organization and one empty group, made by three requests\<close>
  "st1 = serve id [Create_user u1, Create_organization o1, Create_group g1] (empty_store disk0)"

definition msg1 :: message_dict where
  \<comment> \<open>the dictionary that \<^verbatim>\<open>create_message\<close> makes for the first message of the samples\<close>
  "msg1 = Message_dict \<lparr>m_id = ''m1'', m_content = ''hi'', m_user_id = ''u1'',
            m_timestamp = ''2024-01-01T00:00:00'', m_likes = [], m_dislikes = []\<rparr>"

definition st2 :: "collection state" where
  \<comment> \<open>\<open>st1\<close>, then the user joins the group and posts one message\<close>
  "st2 = serve id [Add_member_to_group ''g1'' ''u1'',
                   Create_message ''m1'' ''2024-01-01T00:00:00'' ''g1'' ''hi'' ''u1''] st1"

definition grp2 :: group_dict where
  \<comment> \<open>the group of \<open>st2\<close>\<close>
  "grp2 = (Group_dict g1)\<lparr>g_members := [''u1''], g_messages := [msg1]\<rparr>"

definition grp2_colored :: group_dict where
  \<comment> \<open>the group of \<open>st2\<close> once \<^verbatim>\<open>get_messages\<close> has run\<close>
  "grp2_colored = grp2\<lparr>g_messages := [msg1\<lparr>m_color := Some ''gray''\<rparr>]\<rparr>"

definition grp2_saved :: group_dict where
  \<comment> \<open>the same group after a like by the user\<close>
  "grp2_saved = grp2\<lparr>g_messages := [msg1\<lparr>m_likes := [''u1''], m_color := Some ''gray''\<rparr>]\<rparr>"

text \<open>
  Request bodies that \<^verbatim>\<open>create_group\<close> accepts: the model \<^verbatim>\<open>Group\<close> takes any list of
  strings as members and any list of messages, with any likes and dislikes.
\<close>

definition sample_message :: "string \<Rightarrow> string list \<Rightarrow> string list \<Rightarrow> Message" where
  "sample_message message_id likes dislikes =
     \<lparr>m_id = message_id, m_content = ''hi'', m_user_id = ''u1'',
      m_timestamp = ''2024-01-01T00:00:00'', m_likes = likes, m_dislikes = dislikes\<rparr>"

definition g_dup :: "Message Group" where
  \<comment> \<open>a member listed twice, and a message that the same user likes twice\<close>
  "g_dup = \<lparr>g_id = ''g1'', g_name = ''general'', g_description = ''a group'', g_org_id = ''o1'',
            g_members = [''u1'', ''u1''],
            g_messages = [sample_message ''m1'' [''u1'', ''u1''] []]\<rparr>"

definition st_dup :: "collection state" where
  "st_dup = serve id [Create_user u1, Create_group g_dup] (empty_store disk0)"

definition g_ghost :: "Message Group" where
  \<comment> \<open>a member and an author that no user collection knows\<close>
  "g_ghost = \<lparr>g_id = ''g9'', g_name = ''haunted'', g_description = ''a group'', g_org_id = ''o9'',
              g_members = [''ghost''],
              g_messages = [(sample_message ''m9'' [] [])\<lparr>m_user_id := ''ghost''\<rparr>]\<rparr>"

definition g4 :: "Message Group" where
  \<comment> \<open>four messages: no reaction, a like, a dislike, one of each\<close>
  "g4 = \<lparr>g_id = ''g4'', g_name = ''colors'', g_description = ''a group'', g_org_id = ''o1'',
          g_members = [],
          g_messages = [sample_message ''a'' [] [], sample_message ''b'' [''u1''] [],
                        sample_message ''c'' [] [''u1''], sample_message ''d'' [''u1''] [''u2'']]\<rparr>"

definition st4 :: "collection state" where
  "st4 = serve id [Create_group g4] (empty_store disk0)"

definition colored4 :: "message_dict list" where
  "colored4 =
     [(Message_dict (sample_message ''a'' [] []))\<lparr>m_color := Some ''gray''\<rparr>,
      (Message_dict (sample_message ''b'' [''u1''] []))\<lparr>m_color := Some ''green''\<rparr>,
      (Message_dict (sample_message ''c'' [] [''u1'']))\<lparr>m_color := Some ''red''\<rparr>,
      (Message_dict (sample_message ''d'' [''u1''] [''u2'']))\<lparr>m_color := Some ''yellow''\<rparr>]"

text \<open>
  Two contents of \<^verbatim>\<open>groups.json\<close>, and a disk on which that file exists, can be read, and
  cannot be opened for writing.
\<close>

definition no_groups :: collection where
  "no_groups = Groups Map.empty"

definition some_groups :: collection where
  "some_groups = Groups [''g1'' \<mapsto> Group_dict g1]"

definition disk_ro :: "collection fs" where
  "disk_ro = \<lparr>fs_dirs = {''data''}, fs_files = [''data/groups.json'' \<mapsto> no_groups],
              fs_write_denied = {''data/groups.json''}, fs_read_denied = {}\<rparr>"

section \<open>Facts about the model\<close>

subsection \<open>The sample states\<close>

lemma st1_eval:
  "users_db st1 = [''u1'' \<mapsto> u1]"
  "orgs_db st1 = [''o1'' \<mapsto> o1]"
  "groups_db st1 = [''g1'' \<mapsto> Group_dict g1]"
  by (simp_all add: st1_def empty_store_def create_user_def create_organization_def
      create_group_def u1_def o1_def g1_def Let_def)

lemma st2_eval:
  "users_db st2 = [''u1'' \<mapsto> u1]"
  "groups_db st2 = [''g1'' \<mapsto> grp2]"
  by (simp_all add: st2_def st1_eval add_member_to_group_def create_message_def grp2_def msg1_def
      Group_dict_def g1_def Let_def)

lemma st_dup_eval:
  "users_db st_dup = [''u1'' \<mapsto> u1]"
  "groups_db st_dup = [''g1'' \<mapsto> Group_dict g_dup]"
  by (simp_all add: st_dup_def empty_store_def create_user_def create_group_def u1_def g_dup_def
      Let_def)

subsection \<open>Lists\<close>

lemma count_list_remove1:
  "count_list (remove1 x xs) x = count_list xs x - 1"
  by (induction xs) auto

lemma count_list_0_iff: "count_list xs x = 0 \<longleftrightarrow> x \<notin> set xs"
  by (induction xs) auto

lemma once_removed:
  "count_list xs x \<le> 1 \<Longrightarrow> x \<notin> set (remove1 x xs)"
  using count_list_remove1 [of x xs] by (simp add: count_list_0_iff [symmetric])

lemma remove_if_in_remove1: "remove_if_in user_id xs = remove1 user_id xs"
  by (simp add: remove_if_in_def remove1_idem)

subsection \<open>Finding a message\<close>

lemma find_message_None:
  "find_message message_id msgs = None \<longleftrightarrow> (\<forall>m \<in> set msgs. m_id m \<noteq> message_id)"
  by (induction msgs) auto

lemma find_message_Some:
  "find_message message_id msgs = Some i \<longleftrightarrow>
     i < length msgs \<and> m_id (msgs ! i) = message_id \<and> (\<forall>j<i. m_id (msgs ! j) \<noteq> message_id)"
proof (induction msgs arbitrary: i)
  case Nil
  then show ?case by simp
next
  case (Cons msg msgs)
  show ?case
  proof (cases "m_id msg = message_id")
    case True
    then show ?thesis by (cases i) auto
  next
    case False
    show ?thesis
    proof (cases i)
      case 0
      with False show ?thesis by auto
    next
      case (Suc k)
      have "(\<forall>j<Suc k. m_id ((msg # msgs) ! j) \<noteq> message_id) \<longleftrightarrow>
            (\<forall>j<k. m_id (msgs ! j) \<noteq> message_id)"
        using False by (auto simp: less_Suc_eq_0_disj)
      with False Suc Cons.IH [of k] show ?thesis by auto
    qed
  qed
qed

lemma find_message_update:
  assumes "find_message message_id msgs = Some i" and "m_id new = message_id"
  shows "find_message message_id (msgs[i := new]) = Some i"
  using assms by (simp add: find_message_Some)

subsection \<open>Reacting\<close>

lemma react_fields:
  "m_id (react user_id reaction message) = m_id message"
  "m_likes (react user_id reaction message) =
     remove1 user_id (m_likes message) @ (if reaction = ''like'' then [user_id] else [])"
  "m_dislikes (react user_id reaction message) =
     remove1 user_id (m_dislikes message) @ (if reaction = ''dislike'' then [user_id] else [])"
  by (simp_all add: react_def remove_if_in_remove1 Let_def)

lemma react_eq:
  "react user_id reaction message =
     message\<lparr>m_likes := remove1 user_id (m_likes message) @
                 (if reaction = ''like'' then [user_id] else []),
             m_dislikes := remove1 user_id (m_dislikes message) @
                 (if reaction = ''dislike'' then [user_id] else [])\<rparr>"
  by (simp add: react_def remove_if_in_remove1 Let_def)

lemma react_counts:
  assumes "count_list (m_likes message) user_id \<le> 1"
    and "count_list (m_dislikes message) user_id \<le> 1"
  shows "count_list (m_likes (react user_id reaction message)) user_id +
         count_list (m_dislikes (react user_id reaction message)) user_id \<le> 1"
  using assms by (simp add: react_fields count_list_remove1)

lemma react_to_message_found:
  assumes "groups_db st group_id = Some grp"
    and "find_message message_id (g_messages grp) = Some i"
  shows "react_to_message json_dump group_id message_id user_id reaction st =
     (Inr (react user_id reaction (g_messages grp ! i)),
      st\<lparr>groups_db := (groups_db st)
            (group_id \<mapsto> grp\<lparr>g_messages :=
               (g_messages grp)[i := react user_id reaction (g_messages grp ! i)]\<rparr>),
         disk := save_data json_dump ''groups.json''
            (Groups ((groups_db st)
               (group_id \<mapsto> grp\<lparr>g_messages :=
                  (g_messages grp)[i := react user_id reaction (g_messages grp ! i)]\<rparr>)))
            (disk st)\<rparr>)"
  using assms by (simp add: react_to_message_def Let_def)

subsection \<open>The color\<close>

lemma like_ratio_one:
  "0 < l + d \<Longrightarrow> (of_nat l :: rat) / of_nat (l + d) = 1 \<longleftrightarrow> d = 0"
  by (simp add: divide_eq_1_iff flip: of_nat_add)

lemma like_ratio_zero:
  "0 < l + d \<Longrightarrow> (of_nat l :: rat) / of_nat (l + d) = 0 \<longleftrightarrow> l = 0"
  by auto

lemma reaction_color_cases:
  "reaction_color message =
     (if m_likes message = [] \<and> m_dislikes message = [] then ''gray''
      else if m_dislikes message = [] then ''green''
      else if m_likes message = [] then ''red''
      else ''yellow'')"
proof (cases "0 < length (m_likes message) + length (m_dislikes message)")
  case True
  from like_ratio_one [OF True] like_ratio_zero [OF True] True show ?thesis
    unfolding reaction_color_def Let_def by (simp only: if_True) auto
next
  case False
  then show ?thesis by (simp add: reaction_color_def)
qed

subsection \<open>Members under any run of requests\<close>

lemma handle_members_distinct:
  assumes "\<forall>group_id grp. groups_db st group_id = Some grp \<longrightarrow> distinct (g_members grp)"
    and "\<forall>grp. request = Create_group grp \<longrightarrow> distinct (g_members grp)"
  shows "\<forall>group_id grp. groups_db (handle json_dump request st) group_id = Some grp \<longrightarrow>
           distinct (g_members grp)"
proof (cases request)
  case (Create_user user)
  with assms(1) show ?thesis by (simp add: create_user_def Let_def)
next
  case (Get_user user_id)
  with assms(1) show ?thesis by (simp add: get_user_def split: option.splits)
next
  case (Create_organization org)
  with assms(1) show ?thesis by (simp add: create_organization_def Let_def)
next
  case (Create_group grp)
  with assms show ?thesis by (simp add: create_group_def Let_def Group_dict_def)
next
  case (Add_member_to_group group_id user_id)
  with assms(1) show ?thesis
    by (auto simp: add_member_to_group_def Let_def split: option.splits if_splits)
next
  case (Create_message uuid now group_id content user_id)
  with assms(1) show ?thesis
    by (auto simp: create_message_def Let_def split: option.splits if_splits)
next
  case (React_to_message group_id message_id user_id reaction)
  with assms(1) show ?thesis
    by (auto simp: react_to_message_def Let_def split: option.splits if_splits)
next
  case (Get_messages group_id)
  with assms(1) show ?thesis
    by (auto simp: get_messages_def Let_def split: option.splits if_splits)
qed

lemma serve_members_distinct:
  assumes "\<forall>group_id grp. groups_db st group_id = Some grp \<longrightarrow> distinct (g_members grp)"
    and "\<forall>grp. Create_group grp \<in> set requests \<longrightarrow> distinct (g_members grp)"
  shows "\<forall>group_id grp. groups_db (serve json_dump requests st) group_id = Some grp \<longrightarrow>
           distinct (g_members grp)"
  using assms
proof (induction requests arbitrary: st)
  case Nil
  then show ?case by simp
next
  case (Cons request requests)
  have "\<forall>group_id grp. groups_db (handle json_dump request st) group_id = Some grp \<longrightarrow>
           distinct (g_members grp)"
    using Cons.prems by (intro handle_members_distinct) auto
  then show ?case
    using Cons.prems(2) by (simp add: Cons.IH)
qed

section \<open>Reading the messages changes the stored group\<close>

text \<open>
  Claim C1 says that \<^verbatim>\<open>get_messages\<close> leaves the stored groups unchanged and that the color
  never reaches the file. The handler has no call of \<^verbatim>\<open>save_data\<close> and the model \<^verbatim>\<open>Message\<close>
  has no field for a color, but the loop assigns \<^verbatim>\<open>message["color"]\<close> on the stored
  dictionaries. In the sample state \<open>st2\<close> the one message has no color; after
  \<^verbatim>\<open>get_messages\<close> the stored message carries the color gray; and the next handler that
  saves the groups, here a like on that message, writes the color into
  \<^verbatim>\<open>data/groups.json\<close>, where it is gray although the message now has a like.
\<close>

theorem C1_get_messages_writes_color:
  "groups_db st2 ''g1'' = Some grp2 \<and> map m_color (g_messages grp2) = [None] \<and>
   groups_db (snd (get_messages ''g1'' st2)) ''g1'' = Some grp2_colored \<and>
   map m_color (g_messages grp2_colored) = [Some ''gray''] \<and>
   fs_files (disk (snd (react_to_message id ''g1'' ''m1'' ''u1'' ''like''
       (snd (get_messages ''g1'' st2))))) ''data/groups.json'' =
     Some (Groups [''g1'' \<mapsto> grp2_saved]) \<and>
   map m_color (g_messages grp2_saved) = [Some ''gray'']"
  by (simp add: st2_eval get_messages_def react_to_message_def react_def remove_if_in_def
      save_data_def open_write_def Let_def grp2_colored_def grp2_saved_def grp2_def msg1_def
      Message_dict_def reaction_color_cases st2_def st1_def empty_store_def disk0_def
      create_user_def create_organization_def create_group_def add_member_to_group_def
      create_message_def u1_def o1_def g1_def Group_dict_def)

section \<open>Members without duplicates\<close>

text \<open>
  Claim C2, amended. \<^verbatim>\<open>create_group\<close> stores the members of the request body as they
  come, so the claim holds for the runs of requests in which every body given to
  \<^verbatim>\<open>create_group\<close> lists each member once: starting from the empty store, after any such
  run (of any of the eight requests, in any order, failing or not) every group's list of
  members is free of duplicates.
\<close>

theorem C2_members_distinct:
  assumes "\<forall>grp. Create_group grp \<in> set requests \<longrightarrow> distinct (g_members grp)"
    and "groups_db (serve json_dump requests (empty_store d)) group_id = Some grp"
  shows "distinct (g_members grp)"
proof -
  have "\<forall>group_id grp. groups_db (empty_store d) group_id = Some grp \<longrightarrow>
          distinct (g_members grp)"
    by (simp add: empty_store_def)
  from serve_members_distinct [OF this assms(1)] assms(2) show ?thesis
    by blast
qed

text \<open>
  An instance: an empty group is created and the same user is added to it twice; the list
  of members is the user, once.
\<close>

theorem C2_members_distinct_witness:
  "distinct (g_members g1) \<and>
   groups_db (serve id [Create_user u1, Create_organization o1, Create_group g1,
       Add_member_to_group ''g1'' ''u1'', Add_member_to_group ''g1'' ''u1'']
     (empty_store disk0)) ''g1'' = Some ((Group_dict g1)\<lparr>g_members := [''u1'']\<rparr>) \<and>
   distinct (g_members ((Group_dict g1)\<lparr>g_members := [''u1'']\<rparr>))"
proof -
  let ?requests = "[Create_user u1, Create_organization o1, Create_group g1,
       Add_member_to_group ''g1'' ''u1'', Add_member_to_group ''g1'' ''u1'']"
  have d: "distinct (g_members g1)" by (simp add: g1_def)
  then have h: "\<forall>grp. Create_group grp \<in> set ?requests \<longrightarrow> distinct (g_members grp)"
    by simp
  have r: "groups_db (serve id ?requests (empty_store disk0)) ''g1'' =
      Some ((Group_dict g1)\<lparr>g_members := [''u1'']\<rparr>)"
    by (simp add: empty_store_def create_user_def create_organization_def create_group_def
        add_member_to_group_def u1_def o1_def g1_def Group_dict_def Let_def)
  from C2_members_distinct [OF h r] d r show ?thesis by simp
qed

text \<open>
  The claim for any body fails: from the empty store, one \<^verbatim>\<open>create_group\<close> whose body
  lists a user twice leaves a group whose members hold that user twice.
\<close>

theorem C2_members_distinct_counterexample:
  "groups_db (serve id [Create_user u1, Create_group g_dup] (empty_store disk0)) ''g1'' =
     Some (Group_dict g_dup) \<and>
   g_members (Group_dict g_dup) = [''u1'', ''u1''] \<and>
   \<not> distinct (g_members (Group_dict g_dup))"
  by (simp add: empty_store_def create_user_def create_group_def u1_def g_dup_def Group_dict_def
      Let_def)

section \<open>User ids that are checked\<close>

text \<open>
  Claim C3, amended to the two handlers that check. When \<^verbatim>\<open>add_member_to_group\<close>
  succeeds, the user id is a key of the user collection, before the call and after it, and
  is a member of the group; when \<^verbatim>\<open>create_message\<close> succeeds, the user id is a key of the
  user collection, before and after, and is the author of the message now in the group.
  \<^verbatim>\<open>create_group\<close> makes no such check.
\<close>

theorem C3_references_checked:
  "(add_member_to_group json_dump group_id user_id st = (Inr response, st') \<longrightarrow>
      user_id \<in> dom (users_db st) \<and> users_db st' = users_db st \<and>
      (\<exists>grp. groups_db st' group_id = Some grp \<and> user_id \<in> set (g_members grp))) \<and>
   (create_message json_dump uuid now group_id content user_id st = (Inr message, st'') \<longrightarrow>
      user_id \<in> dom (users_db st) \<and> users_db st'' = users_db st \<and>
      m_user_id message = user_id \<and>
      (\<exists>grp. groups_db st'' group_id = Some grp \<and> message \<in> set (g_messages grp)))"
  by (auto simp: add_member_to_group_def create_message_def Message_dict_def Let_def
      split: option.splits if_splits)

text \<open>
  An instance: in the sample state \<open>st1\<close> the user exists, and both calls succeed.
\<close>

theorem C3_references_checked_witness:
  "users_db st1 ''u1'' = Some u1 \<and>
   fst (add_member_to_group id ''g1'' ''u1'' st1) = Inr ''Member added successfully'' \<and>
   fst (create_message id ''m1'' ''2024-01-01T00:00:00'' ''g1'' ''hi'' ''u1'' st1) = Inr msg1"
proof -
  have a: "fst (add_member_to_group id ''g1'' ''u1'' st1) = Inr ''Member added successfully''"
    by (simp add: add_member_to_group_def st1_eval Group_dict_def g1_def Let_def)
  have c: "fst (create_message id ''m1'' ''2024-01-01T00:00:00'' ''g1'' ''hi'' ''u1'' st1) =
      Inr msg1"
    by (simp add: create_message_def st1_eval msg1_def Let_def)
  have a': "add_member_to_group id ''g1'' ''u1'' st1 =
      (Inr ''Member added successfully'', snd (add_member_to_group id ''g1'' ''u1'' st1))"
    by (simp add: prod_eq_iff a)
  have c': "create_message id ''m1'' ''2024-01-01T00:00:00'' ''g1'' ''hi'' ''u1'' st1 =
      (Inr msg1, snd (create_message id ''m1'' ''2024-01-01T00:00:00'' ''g1'' ''hi'' ''u1'' st1))"
    by (simp add: prod_eq_iff c)
  from C3_references_checked [of id "''g1''" "''u1''" st1 "''Member added successfully''"
      "snd (add_member_to_group id ''g1'' ''u1'' st1)" "''m1''" "''2024-01-01T00:00:00''"
      "''hi''" msg1
      "snd (create_message id ''m1'' ''2024-01-01T00:00:00'' ''g1'' ''hi'' ''u1'' st1)"]
  have "''u1'' \<in> dom (users_db st1)"
    using a' by blast
  with a c show ?thesis by (simp add: st1_eval)
qed

text \<open>
  The claim for \<^verbatim>\<open>create_group\<close> fails: on the empty store, where no user exists, it
  succeeds on a body with a member and a message author called ghost, and stores both.
\<close>

theorem C3_references_checked_counterexample:
  "users_db (empty_store disk0) ''ghost'' = None \<and>
   fst (create_group id g_ghost (empty_store disk0)) = Inr g_ghost \<and>
   groups_db (snd (create_group id g_ghost (empty_store disk0))) ''g9'' =
     Some (Group_dict g_ghost) \<and>
   g_members (Group_dict g_ghost) = [''ghost''] \<and>
   map m_user_id (g_messages (Group_dict g_ghost)) = [''ghost'']"
  by (simp add: empty_store_def create_group_def g_ghost_def Group_dict_def Message_dict_def
      sample_message_def Let_def)

section \<open>One reaction of a user on a message\<close>

text \<open>
  Claim C4, amended. \<^verbatim>\<open>list.remove\<close> deletes one occurrence, so the claim needs a message
  in which the user stands at most once among the likes and at most once among the
  dislikes; every message made by \<^verbatim>\<open>create_message\<close> is one. Take the first message of
  an existing group that carries the id, such a message. Then for every list of reaction
  strings, each of the successive \<^verbatim>\<open>react_to_message\<close> calls by that user on that message
  succeeds, and in the message it returns the occurrences of the user among the likes and
  among the dislikes number at most one in all.
\<close>

theorem C4_one_reaction_per_user:
  assumes "groups_db st group_id = Some grp"
    and "i < length (g_messages grp)"
    and "m_id (g_messages grp ! i) = message_id"
    and "\<forall>j<i. m_id (g_messages grp ! j) \<noteq> message_id"
    and "count_list (m_likes (g_messages grp ! i)) user_id \<le> 1"
    and "count_list (m_dislikes (g_messages grp ! i)) user_id \<le> 1"
  shows "\<forall>response \<in> set (react_calls json_dump group_id message_id user_id reactions st).
           \<exists>message. response = Inr message \<and>
             count_list (m_likes message) user_id + count_list (m_dislikes message) user_id \<le> 1"
proof -
  from assms(2-4) have found: "find_message message_id (g_messages grp) = Some i"
    by (simp add: find_message_Some)
  from assms(1) found assms(5,6) show ?thesis
  proof (induction reactions arbitrary: st grp)
    case Nil
    then show ?case by simp
  next
    case (Cons reaction reactions)
    let ?new = "react user_id reaction (g_messages grp ! i)"
    let ?grp = "grp\<lparr>g_messages := (g_messages grp)[i := ?new]\<rparr>"
    let ?call = "react_to_message json_dump group_id message_id user_id reaction st"
    have call: "fst ?call = Inr ?new" "groups_db (snd ?call) group_id = Some ?grp"
      using react_to_message_found [OF Cons.prems(1,2)] by simp_all
    have sum: "count_list (m_likes ?new) user_id + count_list (m_dislikes ?new) user_id \<le> 1"
      using Cons.prems(3,4) by (rule react_counts)
    have i: "i < length (g_messages grp)"
      using Cons.prems(2) by (simp add: find_message_Some)
    have "m_id ?new = message_id"
      using Cons.prems(2) by (simp add: find_message_Some react_fields)
    then have "find_message message_id ((g_messages grp)[i := ?new]) = Some i"
      by (rule find_message_update [OF Cons.prems(2)])
    then have found': "find_message message_id (g_messages ?grp) = Some i"
      by simp
    have new: "g_messages ?grp ! i = ?new"
      using i by simp
    have rest: "\<forall>response \<in> set (react_calls json_dump group_id message_id user_id reactions
                  (snd ?call)).
           \<exists>message. response = Inr message \<and>
             count_list (m_likes message) user_id + count_list (m_dislikes message) user_id \<le> 1"
      using sum by (intro Cons.IH [OF call(2) found']) (simp_all only: new)
    from call(1) sum rest show ?case by simp
  qed
qed

text \<open>
  An instance: on the message of \<open>st2\<close>, which has no reactions, the user likes, likes
  again, dislikes, and sends a reaction that is neither.
\<close>

theorem C4_one_reaction_per_user_witness:
  "groups_db st2 ''g1'' = Some grp2 \<and> g_messages grp2 = [msg1] \<and> m_id msg1 = ''m1'' \<and>
   m_likes msg1 = [] \<and> m_dislikes msg1 = [] \<and>
   react_calls id ''g1'' ''m1'' ''u1'' [''like'', ''like'', ''dislike'', ''love''] st2 =
     [Inr (msg1\<lparr>m_likes := [''u1''], m_dislikes := []\<rparr>),
      Inr (msg1\<lparr>m_likes := [''u1''], m_dislikes := []\<rparr>),
      Inr (msg1\<lparr>m_likes := [], m_dislikes := [''u1'']\<rparr>),
      Inr (msg1\<lparr>m_likes := [], m_dislikes := []\<rparr>)]"
proof -
  have g: "groups_db st2 ''g1'' = Some grp2" by (simp add: st2_eval)
  have i: "0 < length (g_messages grp2)" by (simp add: grp2_def)
  have m: "m_id (g_messages grp2 ! 0) = ''m1''" by (simp add: grp2_def msg1_def Message_dict_def)
  have f: "\<forall>j<0. m_id (g_messages grp2 ! j) \<noteq> ''m1''" by simp
  have c: "count_list (m_likes (g_messages grp2 ! 0)) ''u1'' \<le> 1"
    "count_list (m_dislikes (g_messages grp2 ! 0)) ''u1'' \<le> 1"
    by (simp_all add: grp2_def msg1_def Message_dict_def)
  have l: "m_likes msg1 = []" "m_dislikes msg1 = []" "g_messages grp2 = [msg1]"
    "m_id msg1 = ''m1''"
    by (simp_all add: grp2_def msg1_def Message_dict_def)
  have calls: "react_calls id ''g1'' ''m1'' ''u1'' [''like'', ''like'', ''dislike'', ''love''] st2 =
     [Inr (msg1\<lparr>m_likes := [''u1''], m_dislikes := []\<rparr>),
      Inr (msg1\<lparr>m_likes := [''u1''], m_dislikes := []\<rparr>),
      Inr (msg1\<lparr>m_likes := [], m_dislikes := [''u1'']\<rparr>),
      Inr (msg1\<lparr>m_likes := [], m_dislikes := []\<rparr>)]"
    by (simp add: react_to_message_def st2_eval l react_def remove_if_in_def Let_def)
  from C4_one_reaction_per_user [OF g i m f c, where json_dump = id
      and reactions = "[''like'', ''like'', ''dislike'', ''love'']"]
  show ?thesis
    using g l calls by simp
qed

text \<open>
  The claim for any message fails on a message stored by \<^verbatim>\<open>create_group\<close> with the user
  twice among the likes: after a dislike the user is in both lists, and after a like the
  user is twice among the likes.
\<close>

theorem C4_one_reaction_per_user_counterexample:
  "groups_db st_dup ''g1'' = Some (Group_dict g_dup) \<and>
   g_messages (Group_dict g_dup) = [Message_dict (sample_message ''m1'' [''u1'', ''u1''] [])] \<and>
   fst (react_to_message id ''g1'' ''m1'' ''u1'' ''dislike'' st_dup) =
     Inr (Message_dict (sample_message ''m1'' [''u1''] [''u1''])) \<and>
   fst (react_to_message id ''g1'' ''m1'' ''u1'' ''like'' st_dup) =
     Inr (Message_dict (sample_message ''m1'' [''u1'', ''u1''] []))"
  by (simp add: st_dup_eval react_to_message_def react_def remove_if_in_def Let_def
      g_dup_def Group_dict_def Message_dict_def sample_message_def)

section \<open>What a reaction does to the message\<close>

text \<open>
  Claim C5, amended: the removal is that of the first occurrence. Let the group exist and
  let position \<open>i\<close> hold the first message with the given id. Then \<^verbatim>\<open>react_to_message\<close>
  succeeds for every reaction string; the message it returns, which it also stores at
  position \<open>i\<close>, is the old one with the first occurrence of the user deleted from the likes
  and from the dislikes, and then the user appended to the likes exactly when the reaction
  is "like", to the dislikes exactly when it is "dislike", and to neither list for any
  other string. When the user stood at most once in a list, the deletion leaves no
  occurrence of the user in it.
\<close>

theorem C5_react_effect:
  assumes "groups_db st group_id = Some grp"
    and "i < length (g_messages grp)"
    and "m_id (g_messages grp ! i) = message_id"
    and "\<forall>j<i. m_id (g_messages grp ! j) \<noteq> message_id"
  shows "let old = g_messages grp ! i;
             new = old\<lparr>m_likes := remove1 user_id (m_likes old) @
                                   (if reaction = ''like'' then [user_id] else []),
                       m_dislikes := remove1 user_id (m_dislikes old) @
                                   (if reaction = ''dislike'' then [user_id] else [])\<rparr>
         in fst (react_to_message json_dump group_id message_id user_id reaction st) = Inr new \<and>
            groups_db (snd (react_to_message json_dump group_id message_id user_id reaction st)) =
              (groups_db st)(group_id \<mapsto> grp\<lparr>g_messages := (g_messages grp)[i := new]\<rparr>) \<and>
            (count_list (m_likes old) user_id \<le> 1 \<longrightarrow>
               user_id \<notin> set (remove1 user_id (m_likes old))) \<and>
            (count_list (m_dislikes old) user_id \<le> 1 \<longrightarrow>
               user_id \<notin> set (remove1 user_id (m_dislikes old)))"
proof -
  from assms(2-4) have "find_message message_id (g_messages grp) = Some i"
    by (simp add: find_message_Some)
  from react_to_message_found [OF assms(1) this] show ?thesis
    by (simp add: Let_def react_eq once_removed)
qed

text \<open>
  An instance, on the message of \<open>st2\<close>: a like, a dislike, and a reaction that is neither.
\<close>

theorem C5_react_effect_witness:
  "groups_db st2 ''g1'' = Some grp2 \<and> g_messages grp2 = [msg1] \<and> m_id msg1 = ''m1'' \<and>
   fst (react_to_message id ''g1'' ''m1'' ''u1'' ''like'' st2) =
     Inr (msg1\<lparr>m_likes := [''u1''], m_dislikes := []\<rparr>) \<and>
   fst (react_to_message id ''g1'' ''m1'' ''u1'' ''dislike'' st2) =
     Inr (msg1\<lparr>m_likes := [], m_dislikes := [''u1'']\<rparr>) \<and>
   fst (react_to_message id ''g1'' ''m1'' ''u1'' ''love'' st2) =
     Inr (msg1\<lparr>m_likes := [], m_dislikes := []\<rparr>)"
proof -
  have g: "groups_db st2 ''g1'' = Some grp2" by (simp add: st2_eval)
  have i: "0 < length (g_messages grp2)" by (simp add: grp2_def)
  have m: "m_id (g_messages grp2 ! 0) = ''m1''" by (simp add: grp2_def msg1_def Message_dict_def)
  have f: "\<forall>j<0. m_id (g_messages grp2 ! j) \<noteq> ''m1''" by simp
  have l: "m_likes msg1 = []" "m_dislikes msg1 = []" "g_messages grp2 = [msg1]"
    by (simp_all add: grp2_def msg1_def Message_dict_def)
  from C5_react_effect [OF g i m f, where json_dump = id and user_id = "''u1''"
       and reaction = "''like''"]
    C5_react_effect [OF g i m f, where json_dump = id and user_id = "''u1''"
       and reaction = "''dislike''"]
    C5_react_effect [OF g i m f, where json_dump = id and user_id = "''u1''"
       and reaction = "''love''"]
  show ?thesis
    using g m l by (simp add: Let_def)
qed

text \<open>
  The claim that the user is removed from the lists fails on a message stored by
  \<^verbatim>\<open>create_group\<close> with the user twice among the likes: after a reaction that is neither
  "like" nor "dislike" the user is still among the likes.
\<close>

theorem C5_react_effect_counterexample:
  "groups_db st_dup ''g1'' = Some (Group_dict g_dup) \<and>
   g_messages (Group_dict g_dup) = [Message_dict (sample_message ''m1'' [''u1'', ''u1''] [])] \<and>
   fst (react_to_message id ''g1'' ''m1'' ''u1'' ''love'' st_dup) =
     Inr (Message_dict (sample_message ''m1'' [''u1''] []))"
  by (simp add: st_dup_eval react_to_message_def react_def remove_if_in_def Let_def
      g_dup_def Group_dict_def Message_dict_def sample_message_def)

section \<open>Reacting to a message that is not there\<close>

text \<open>
  Claim C6. In a group that exists, a message id that no message of the group carries makes
  \<^verbatim>\<open>react_to_message\<close> raise the HTTP error 404 "Message not found", and the state returned
  is the state given: the group's messages, with their content, likes and dislikes, are
  untouched.
\<close>

theorem C6_react_unknown_message:
  assumes "groups_db st group_id = Some grp"
    and "\<forall>m \<in> set (g_messages grp). m_id m \<noteq> message_id"
  shows "react_to_message json_dump group_id message_id user_id reaction st =
           (Inl (HTTPException 404 ''Message not found''), st)"
proof -
  from assms(2) have "find_message message_id (g_messages grp) = None"
    by (simp add: find_message_None)
  with assms(1) show ?thesis
    by (simp add: react_to_message_def)
qed

text \<open>
  An instance: the group of \<open>st2\<close> has the one message \<open>m1\<close>, and the reaction names \<open>m7\<close>.
\<close>

theorem C6_react_unknown_message_witness:
  "groups_db st2 ''g1'' = Some grp2 \<and> g_messages grp2 = [msg1] \<and> m_id msg1 = ''m1'' \<and>
   react_to_message id ''g1'' ''m7'' ''u1'' ''like'' st2 =
     (Inl (HTTPException 404 ''Message not found''), st2)"
proof -
  have g: "groups_db st2 ''g1'' = Some grp2" by (simp add: st2_eval)
  have l: "g_messages grp2 = [msg1]" "m_id msg1 = ''m1''"
    by (simp_all add: grp2_def msg1_def Message_dict_def)
  then have n: "\<forall>m \<in> set (g_messages grp2). m_id m \<noteq> ''m7''" by simp
  from C6_react_unknown_message [OF g n, of id "''u1''" "''like''"] g l show ?thesis by simp
qed

section \<open>Adding a member twice\<close>

text \<open>
  Claim C7, amended. For an existing group and an existing user, two successive calls of
  \<^verbatim>\<open>add_member_to_group\<close> both succeed, the second changes nothing, and the list of
  members after them holds the user. It holds the user exactly once when the list before
  the first call held the user at most once; a group made by \<^verbatim>\<open>create_group\<close> with the
  user listed twice keeps both entries.
\<close>

theorem C7_add_member_twice:
  assumes "groups_db st group_id = Some grp"
    and "user_id \<in> dom (users_db st)"
  shows "let first = add_member_to_group json_dump group_id user_id st;
             second = add_member_to_group json_dump group_id user_id (snd first)
         in fst first = Inr ''Member added successfully'' \<and>
            fst second = Inr ''Member added successfully'' \<and>
            snd second = snd first \<and>
            (\<exists>grp'. groups_db (snd first) group_id = Some grp' \<and>
               user_id \<in> set (g_members grp') \<and>
               (count_list (g_members grp) user_id \<le> 1 \<longrightarrow>
                  count_list (g_members grp') user_id = 1))"
proof (cases "user_id \<in> set (g_members grp)")
  case True
  then have "count_list (g_members grp) user_id \<noteq> 0"
    by (simp add: count_list_0_iff)
  with True assms show ?thesis
    by (auto simp: add_member_to_group_def Let_def)
next
  case False
  then have "count_list (g_members grp) user_id = 0"
    by (simp add: count_list_0_iff)
  with False assms show ?thesis
    by (auto simp: add_member_to_group_def Let_def)
qed

text \<open>
  An instance: the user of \<open>st1\<close> is added twice to the empty group of \<open>st1\<close>.
\<close>

theorem C7_add_member_twice_witness:
  "groups_db st1 ''g1'' = Some (Group_dict g1) \<and> g_members (Group_dict g1) = [] \<and>
   users_db st1 ''u1'' = Some u1 \<and>
   fst (add_member_to_group id ''g1'' ''u1'' st1) = Inr ''Member added successfully'' \<and>
   fst (add_member_to_group id ''g1'' ''u1'' (snd (add_member_to_group id ''g1'' ''u1'' st1))) =
     Inr ''Member added successfully'' \<and>
   snd (add_member_to_group id ''g1'' ''u1'' (snd (add_member_to_group id ''g1'' ''u1'' st1))) =
     snd (add_member_to_group id ''g1'' ''u1'' st1) \<and>
   groups_db (snd (add_member_to_group id ''g1'' ''u1'' st1)) ''g1'' =
     Some ((Group_dict g1)\<lparr>g_members := [''u1'']\<rparr>)"
proof -
  have g: "groups_db st1 ''g1'' = Some (Group_dict g1)" by (simp add: st1_eval)
  have u: "''u1'' \<in> dom (users_db st1)" by (simp add: st1_eval)
  have m: "g_members (Group_dict g1) = []" by (simp add: Group_dict_def g1_def)
  have r: "groups_db (snd (add_member_to_group id ''g1'' ''u1'' st1)) ''g1'' =
     Some ((Group_dict g1)\<lparr>g_members := [''u1'']\<rparr>)"
    by (simp add: add_member_to_group_def st1_eval m Let_def)
  from C7_add_member_twice [OF g u, of id] g m r show ?thesis
    by (simp add: Let_def st1_eval)
qed

text \<open>
  The claim for every existing group fails on a group created with the user listed twice:
  both calls succeed and the members are still the user, twice.
\<close>

theorem C7_add_member_twice_counterexample:
  "groups_db st_dup ''g1'' = Some (Group_dict g_dup) \<and> users_db st_dup ''u1'' = Some u1 \<and>
   fst (add_member_to_group id ''g1'' ''u1'' st_dup) = Inr ''Member added successfully'' \<and>
   fst (add_member_to_group id ''g1'' ''u1'' (snd (add_member_to_group id ''g1'' ''u1'' st_dup))) =
     Inr ''Member added successfully'' \<and>
   groups_db (snd (add_member_to_group id ''g1'' ''u1''
       (snd (add_member_to_group id ''g1'' ''u1'' st_dup)))) ''g1'' = Some (Group_dict g_dup) \<and>
   g_members (Group_dict g_dup) = [''u1'', ''u1'']"
  by (simp add: add_member_to_group_def st_dup_eval Group_dict_def g_dup_def)

section \<open>Creation with an id that is taken\<close>

text \<open>
  Claim C8. When the id of a user, of an organization or of a group is already a key of its
  collection, the create call raises the HTTP error 400 (the conflict) and returns the
  state it was given: the entity stored under that id, and everything else, is as before.
\<close>

theorem C8_create_existing_conflict:
  "(u_id user \<in> dom (users_db st) \<longrightarrow>
      create_user json_dump user st = (Inl (HTTPException 400 ''User already exists''), st)) \<and>
   (o_id org \<in> dom (orgs_db st) \<longrightarrow>
      create_organization json_dump org st =
        (Inl (HTTPException 400 ''Organization already exists''), st)) \<and>
   (g_id grp \<in> dom (groups_db st) \<longrightarrow>
      create_group json_dump grp st = (Inl (HTTPException 400 ''Group already exists''), st))"
  by (simp add: create_user_def create_organization_def create_group_def)

text \<open>
  An instance: the user, the organization and the group of \<open>st1\<close> are created a second time.
\<close>

theorem C8_create_existing_conflict_witness:
  "u_id u1 \<in> dom (users_db st1) \<and> o_id o1 \<in> dom (orgs_db st1) \<and>
   g_id g1 \<in> dom (groups_db st1) \<and>
   create_user id u1 st1 = (Inl (HTTPException 400 ''User already exists''), st1) \<and>
   create_organization id o1 st1 =
     (Inl (HTTPException 400 ''Organization already exists''), st1) \<and>
   create_group id g1 st1 = (Inl (HTTPException 400 ''Group already exists''), st1)"
  using C8_create_existing_conflict [of u1 st1 id o1 g1]
  by (simp add: st1_eval) (simp add: u1_def o1_def g1_def)

section \<open>The color of a message\<close>

text \<open>
  Claim C9. Every message that \<^verbatim>\<open>get_messages\<close> returns carries the color gray when its
  likes and dislikes are both empty, green when it has likes and no dislikes, red when it
  has dislikes and no likes, and yellow when it has both.
\<close>

theorem C9_color:
  assumes "get_messages group_id st = (Inr messages, st')"
    and "message \<in> set messages"
  shows "(m_likes message = [] \<and> m_dislikes message = [] \<longrightarrow> m_color message = Some ''gray'') \<and>
         (m_likes message \<noteq> [] \<and> m_dislikes message = [] \<longrightarrow> m_color message = Some ''green'') \<and>
         (m_likes message = [] \<and> m_dislikes message \<noteq> [] \<longrightarrow> m_color message = Some ''red'') \<and>
         (m_likes message \<noteq> [] \<and> m_dislikes message \<noteq> [] \<longrightarrow> m_color message = Some ''yellow'')"
proof -
  from assms(1) obtain grp :: group_dict where
    "messages = map (\<lambda>m. m\<lparr>m_color := Some (reaction_color m)\<rparr>) (g_messages grp)"
    by (auto simp: get_messages_def Let_def split: option.splits)
  with assms(2) obtain m where "message = m\<lparr>m_color := Some (reaction_color m)\<rparr>"
    by auto
  then show ?thesis
    by (simp add: reaction_color_cases)
qed

text \<open>
  An instance: a group with four messages, one for each color.
\<close>

theorem C9_color_witness:
  "get_messages ''g4'' st4 = (Inr colored4, snd (get_messages ''g4'' st4)) \<and>
   map m_likes colored4 = [[], [''u1''], [], [''u1'']] \<and>
   map m_dislikes colored4 = [[], [], [''u1''], [''u2'']] \<and>
   map m_color colored4 = [Some ''gray'', Some ''green'', Some ''red'', Some ''yellow'']"
proof -
  have r: "get_messages ''g4'' st4 = (Inr colored4, snd (get_messages ''g4'' st4))"
    by (simp add: get_messages_def st4_def empty_store_def create_group_def g4_def Group_dict_def
        Let_def colored4_def reaction_color_cases Message_dict_def sample_message_def)
  have l: "map m_likes colored4 = [[], [''u1''], [], [''u1'']]"
    "map m_dislikes colored4 = [[], [], [''u1''], [''u2'']]"
    by (simp_all add: colored4_def Message_dict_def sample_message_def)
  have "length colored4 = 4"
    by (simp add: colored4_def)
  then have "colored4 ! 0 \<in> set colored4" "colored4 ! 1 \<in> set colored4"
    "colored4 ! 2 \<in> set colored4" "colored4 ! 3 \<in> set colored4"
    by (simp_all only: nth_mem) 
  from this [THEN C9_color [OF r]] l have
    "map m_color colored4 = [Some ''gray'', Some ''green'', Some ''red'', Some ''yellow'']"
    by (simp add: colored4_def)
  with r l show ?thesis by simp
qed

section \<open>Saving and loading again\<close>

text \<open>
  Claim C10, amended. \<^verbatim>\<open>save_data\<close> catches a failure of the write and reports nothing, so
  the claim needs the write to succeed: the directory \<^verbatim>\<open>data\<close> exists and the file can be
  opened for writing. When it can also be opened for reading, and the decoder gives back
  the value from what the encoder wrote for it, \<^verbatim>\<open>load_data\<close> after \<^verbatim>\<open>save_data\<close> returns
  the value saved, whatever the default, and leaves the disk as the save left it.
\<close>

theorem C10_save_then_load:
  assumes "''data'' \<in> fs_dirs d"
    and "''data/'' @ filename \<notin> fs_dirs d"
    and "''data/'' @ filename \<notin> fs_write_denied d"
    and "''data/'' @ filename \<notin> fs_read_denied d"
    and "json_load (json_dump data) = Some data"
  shows "load_data json_load json_dump empty_dict filename default_arg
           (save_data json_dump filename data d) =
         (data, save_data json_dump filename data d)"
  using assms
  by (simp add: load_data_def save_data_def open_write_def open_read_def path_exists_def Let_def)

text \<open>
  An instance: a collection of one group is saved on the sample disk and loaded again.
\<close>

theorem C10_save_then_load_witness:
  "''data'' \<in> fs_dirs disk0 \<and> ''data/groups.json'' \<notin> fs_dirs disk0 \<and>
   ''data/groups.json'' \<notin> fs_write_denied disk0 \<and> ''data/groups.json'' \<notin> fs_read_denied disk0 \<and>
   load_data Some id no_groups ''groups.json'' None (save_data id ''groups.json'' some_groups disk0) =
     (some_groups, save_data id ''groups.json'' some_groups disk0)"
proof -
  have h: "''data'' \<in> fs_dirs disk0" "''data/'' @ ''groups.json'' \<notin> fs_dirs disk0"
    "''data/'' @ ''groups.json'' \<notin> fs_write_denied disk0"
    "''data/'' @ ''groups.json'' \<notin> fs_read_denied disk0"
    "Some (id some_groups) = Some some_groups"
    by (simp_all add: disk0_def)
  from C10_save_then_load [of disk0 "''groups.json''" Some id some_groups no_groups None, OF h] h
  show ?thesis by simp
qed

text \<open>
  The claim for a file that is only present and readable fails: on a disk where
  \<^verbatim>\<open>data/groups.json\<close> holds the empty collection and cannot be opened for writing,
  \<^verbatim>\<open>save_data\<close> leaves the disk as it was and \<^verbatim>\<open>load_data\<close> returns the empty collection,
  not the one saved.
\<close>

theorem C10_save_then_load_counterexample:
  "path_exists disk_ro ''data/groups.json'' \<and>
   open_read disk_ro ''data/groups.json'' = Some no_groups \<and>
   save_data id ''groups.json'' some_groups disk_ro = disk_ro \<and>
   fst (load_data Some id no_groups ''groups.json'' None
          (save_data id ''groups.json'' some_groups disk_ro)) = no_groups \<and>
   no_groups \<noteq> some_groups"
proof -
  have "no_groups \<noteq> some_groups"
    unfolding no_groups_def some_groups_def
    by (metis collection.inject(3) map_upd_nonempty)
  then show ?thesis
    by (simp add: load_data_def save_data_def open_write_def open_read_def path_exists_def
        disk_ro_def)
qed

end
